theory Spec2Isabelle
  imports Complex_Main
begin

section \<open>JavaScript numbers and the conversion \<^verbatim>\<open>Number(...)\<close>\<close>

text \<open>
  A JavaScript number is NaN, one of the two infinities, or a finite value. The finite
  values are kept as exact rationals: \<^verbatim>\<open>Number\<close> of a string is modelled by the
  mathematical value of the numeric literal, before its rounding to a double. Rounding
  never turns a number into NaN nor NaN into a number, and negative zero is identified
  with zero (\<^verbatim>\<open>Number.isNaN\<close>, \<^verbatim>\<open>!==\<close> and truthiness do not tell them apart).
\<close>

datatype number = NaN | PosInfinity | NegInfinity | Finite rat

text \<open>\<^verbatim>\<open>Number.isNaN(x)\<close> for a value that is a number.\<close>

definition isNaN :: "number \<Rightarrow> bool" where
  "isNaN x = (x = NaN)"

text \<open>\<^verbatim>\<open>a !== b\<close> on two numbers: NaN is unequal to everything, itself included.\<close>

definition strictNotEqual :: "number \<Rightarrow> number \<Rightarrow> bool" where
  "strictNotEqual a b = (a = NaN \<or> b = NaN \<or> a \<noteq> b)"

text \<open>Truthiness of a number: zero and NaN are falsy.\<close>

definition truthy :: "number \<Rightarrow> bool" where
  "truthy x = (x \<noteq> NaN \<and> x \<noteq> Finite 0)"

text \<open>
  Strings are lists of code units; the model covers the code units below 256. The
  white space and line terminators that \<^verbatim>\<open>Number\<close> strips from both ends of a string are,
  in that range, TAB, LF, VT, FF, CR, SP and NBSP.
\<close>

definition isStrWhiteSpaceChar :: "char \<Rightarrow> bool" where
  "isStrWhiteSpaceChar c =
     (c \<in> set [CHR 0x09, CHR 0x0A, CHR 0x0B, CHR 0x0C, CHR 0x0D, CHR 0x20, CHR 0xA0])"

definition trimString :: "string \<Rightarrow> string" where
  "trimString s = rev (dropWhile isStrWhiteSpaceChar (rev (dropWhile isStrWhiteSpaceChar s)))"

text \<open>The value of a digit, for the bases up to sixteen.\<close>

definition digitValue :: "char \<Rightarrow> nat option" where
  "digitValue c =
     (let n = (of_char c :: nat) in
      if 48 \<le> n \<and> n \<le> 57 then Some (n - 48)
      else if 97 \<le> n \<and> n \<le> 102 then Some (n - 87)
      else if 65 \<le> n \<and> n \<le> 70 then Some (n - 55)
      else None)"

definition isDigitOf :: "nat \<Rightarrow> char \<Rightarrow> bool" where
  "isDigitOf base c = (case digitValue c of None \<Rightarrow> False | Some d \<Rightarrow> d < base)"

definition isDigits :: "nat \<Rightarrow> string \<Rightarrow> bool" where
  "isDigits base s = (s \<noteq> [] \<and> list_all (isDigitOf base) s)"

definition digitsValue :: "nat \<Rightarrow> string \<Rightarrow> nat" where
  "digitsValue base s =
     foldl (\<lambda>a c. a * base + (case digitValue c of None \<Rightarrow> 0 | Some d \<Rightarrow> d)) 0 s"

text \<open>The part of a string before the first separator, and the part after it, if any.\<close>

definition splitFirst :: "(char \<Rightarrow> bool) \<Rightarrow> string \<Rightarrow> string \<times> string option" where
  "splitFirst P s =
     (takeWhile (\<lambda>c. \<not> P c) s,
      case dropWhile (\<lambda>c. \<not> P c) s of [] \<Rightarrow> None | _ # r \<Rightarrow> Some r)"

text \<open>
  \<^verbatim>\<open>SignedInteger\<close> of an exponent part: decimal digits with an optional sign.
\<close>

definition signedInteger :: "string \<Rightarrow> int option" where
  "signedInteger s =
     (case s of
        [] \<Rightarrow> None
      | c # r \<Rightarrow>
          if c = CHR ''+'' then (if isDigits 10 r then Some (int (digitsValue 10 r)) else None)
          else if c = CHR ''-'' then (if isDigits 10 r then Some (- int (digitsValue 10 r)) else None)
          else if isDigits 10 s then Some (int (digitsValue 10 s)) else None)"

text \<open>
  The mantissa of a decimal literal, one of \<^verbatim>\<open>digits\<close>, \<^verbatim>\<open>digits.\<close>, \<^verbatim>\<open>digits.digits\<close> and
  \<^verbatim>\<open>.digits\<close>: the value of all its digits read as one integer, and the number of digits
  after the point.
\<close>

definition mantissa :: "string \<Rightarrow> (nat \<times> nat) option" where
  "mantissa s =
     (case splitFirst (\<lambda>c. c = CHR ''.'') s of
        (ip, None) \<Rightarrow> if isDigits 10 ip then Some (digitsValue 10 ip, 0) else None
      | (ip, Some fp) \<Rightarrow>
          if (ip \<noteq> [] \<or> fp \<noteq> []) \<and> list_all (isDigitOf 10) ip \<and> list_all (isDigitOf 10) fp
          then Some (digitsValue 10 (ip @ fp), length fp)
          else None)"

definition scale10 :: "nat \<Rightarrow> int \<Rightarrow> rat" where
  "scale10 m e = (if 0 \<le> e then of_nat m * 10 ^ nat e else of_nat m / 10 ^ nat (- e))"

text \<open>
  \<^verbatim>\<open>StrUnsignedDecimalLiteral\<close>: \<^verbatim>\<open>Infinity\<close>, or a mantissa with an optional exponent part
  introduced by \<^verbatim>\<open>e\<close> or \<^verbatim>\<open>E\<close>. \<open>None\<close> stands for a string outside the grammar.
\<close>

definition strUnsignedDecimalLiteral :: "string \<Rightarrow> number option" where
  "strUnsignedDecimalLiteral s =
     (if s = ''Infinity'' then Some PosInfinity
      else case splitFirst (\<lambda>c. c = CHR ''e'' \<or> c = CHR ''E'') s of
        (ms, None) \<Rightarrow>
          (case mantissa ms of None \<Rightarrow> None
           | Some (m, k) \<Rightarrow> Some (Finite (scale10 m (- int k))))
      | (ms, Some es) \<Rightarrow>
          (case mantissa ms of None \<Rightarrow> None
           | Some (m, k) \<Rightarrow>
               (case signedInteger es of None \<Rightarrow> None
                | Some e \<Rightarrow> Some (Finite (scale10 m (e - int k))))))"

definition negate :: "number \<Rightarrow> number" where
  "negate x = (case x of NaN \<Rightarrow> NaN | PosInfinity \<Rightarrow> NegInfinity
               | NegInfinity \<Rightarrow> PosInfinity | Finite q \<Rightarrow> Finite (- q))"

text \<open>\<^verbatim>\<open>StrDecimalLiteral\<close>: an unsigned decimal literal with an optional sign.\<close>

definition strDecimalLiteral :: "string \<Rightarrow> number option" where
  "strDecimalLiteral s =
     (case s of
        [] \<Rightarrow> None
      | c # r \<Rightarrow>
          if c = CHR ''+'' then strUnsignedDecimalLiteral r
          else if c = CHR ''-'' then map_option negate (strUnsignedDecimalLiteral r)
          else strUnsignedDecimalLiteral s)"

text \<open>
  \<^verbatim>\<open>NonDecimalIntegerLiteral\<close>: \<^verbatim>\<open>0x\<close>, \<^verbatim>\<open>0o\<close> or \<^verbatim>\<open>0b\<close> (in either case) followed by digits
  of that base, without a sign. The outer \<open>None\<close> says that the string has no such prefix.
\<close>

definition nonDecimalIntegerLiteral :: "string \<Rightarrow> number option option" where
  "nonDecimalIntegerLiteral s =
     (case s of
        z # p # r \<Rightarrow>
          if z \<noteq> CHR ''0'' then None
          else
            (let base =
               (if p = CHR ''x'' \<or> p = CHR ''X'' then Some (16::nat)
                else if p = CHR ''o'' \<or> p = CHR ''O'' then Some 8
                else if p = CHR ''b'' \<or> p = CHR ''B'' then Some 2
                else None)
             in case base of
                  None \<Rightarrow> None
                | Some b \<Rightarrow>
                    Some (if isDigits b r then Some (Finite (of_nat (digitsValue b r))) else None))
      | _ \<Rightarrow> None)"

text \<open>
  \<^verbatim>\<open>Number(s)\<close> for a string \<^verbatim>\<open>s\<close>: the string is trimmed; the empty string is 0; a string
  of the numeric grammar has its value; every other string is NaN.
\<close>

definition Number_string :: "string \<Rightarrow> number" where
  "Number_string s =
     (let t = trimString s in
      if t = [] then Finite 0
      else case nonDecimalIntegerLiteral t of
             Some r \<Rightarrow> (case r of None \<Rightarrow> NaN | Some v \<Rightarrow> v)
           | None \<Rightarrow> (case strDecimalLiteral t of None \<Rightarrow> NaN | Some v \<Rightarrow> v))"

text \<open>
  A value of the \<^verbatim>\<open>searchParams\<close> object has the type
  \<^verbatim>\<open>string | string[] | undefined\<close>. \<^verbatim>\<open>Number\<close> of undefined is NaN; \<^verbatim>\<open>Number\<close> of an array
  converts the array to a string first, which joins its elements with commas.
\<close>

datatype param = Undefined | Str string | Arr "string list"

fun joinComma :: "string list \<Rightarrow> string" where
  "joinComma [] = []"
| "joinComma [x] = x"
| "joinComma (x # y # r) = x @ '','' @ joinComma (y # r)"

definition Number_param :: "param \<Rightarrow> number" where
  "Number_param v =
     (case v of
        Undefined \<Rightarrow> NaN
      | Str s \<Rightarrow> Number_string s
      | Arr xs \<Rightarrow> Number_string (joinComma xs))"

section \<open>Data model of the product page\<close>

text \<open>
  The product page (\<^verbatim>\<open>app/(default)/product/[slug]/page.tsx\<close>) receives a product from
  the commerce API. \<^verbatim>\<open>product.defaultImage\<close> is an object with a URL and an alt text, or
  null; every entry of \<^verbatim>\<open>product.images\<close> carries the same two fields and the
  \<^verbatim>\<open>isDefault\<close> flag.
\<close>

record image_ref =
  url :: string
  altText :: string

record image = image_ref +
  isDefault :: bool

text \<open>
  \<^verbatim>\<open>product.prices\<close>: \<^verbatim>\<open>priceRange.min.value\<close>, \<^verbatim>\<open>priceRange.max.value\<close> and \<^verbatim>\<open>price.value\<close>
  are always there; \<^verbatim>\<open>retailPrice\<close>, \<^verbatim>\<open>salePrice\<close> and \<^verbatim>\<open>basePrice\<close> may be missing, and the
  page reads each through \<^verbatim>\<open>?.value\<close>.
\<close>

record prices =
  priceRange_min :: number
  priceRange_max :: number
  retailPrice :: "number option"
  salePrice :: "number option"
  basePrice :: "number option"
  price :: number

record seo =
  pageTitle :: string
  metaDescription :: string
  metaKeywords :: string

text \<open>
  The fields of a product that the metadata step, the image reconciliation and the price
  display read. The other fields (brand, SKU, weight, custom fields and so on) are only
  copied into the markup and are left out.
\<close>

record product =
  name :: string
  product_seo :: seo
  plainTextDescription :: string
  defaultImage :: "image_ref option"
  images :: "image list"
  product_prices :: "prices option"

record optionValueId =
  optionEntityId :: number
  valueEntityId :: number

text \<open>
  Next.js metadata. \<^verbatim>\<open>{}\<close> has no field set; a field that is null counts as not set.
  The field \<^verbatim>\<open>keywords\<close> (here \<open>meta_keywords\<close>) is a string on the content page and a
  list of strings on the product page.
\<close>

datatype keyword_value = KeywordString string | KeywordList "string list"

record metadata =
  title :: "string option"
  description :: "string option"
  meta_keywords :: "keyword_value option"
  openGraph :: "image_ref list option"

definition emptyMetadata :: metadata where
  "emptyMetadata = \<lparr>title = None, description = None, meta_keywords = None, openGraph = None\<rparr>"

text \<open>
  \<^verbatim>\<open>notFound()\<close> throws the framework's not-found error, which ends the step with a 404
  response. A step returns that signal or its value.
\<close>

datatype signal = NotFound

section \<open>Image reconciliation\<close>

text \<open>
  \<^verbatim>\<open>const topLevelDefaultImg = product.images.find((image) => image.isDefault);\<close>
  The first entry whose flag is set, or undefined (\<open>None\<close>) when there is none.
\<close>

definition topLevelDefaultImg :: "image list \<Rightarrow> image option" where
  "topLevelDefaultImg imgs = find isDefault imgs"

text \<open>
  \<^verbatim>\<open>topLevelDefaultImg?.url !== product.defaultImage.url\<close>: the optional chain gives
  undefined when no entry is flagged, and undefined differs from every string.
\<close>

definition urlDiffers :: "image option \<Rightarrow> image_ref \<Rightarrow> bool" where
  "urlDiffers img d = (case img of None \<Rightarrow> True | Some i \<Rightarrow> url i \<noteq> url d)"

text \<open>
  The body of the \<^verbatim>\<open>if\<close> of \<^verbatim>\<open>Product\<close>: \<^verbatim>\<open>images.forEach\<close> clears every flag, then
  \<^verbatim>\<open>images.push\<close> appends the canonical image, flagged. The source mutates the array
  \<^verbatim>\<open>product.images\<close> in place (\<^verbatim>\<open>images\<close> is an alias, not a copy); the model returns the
  array's new contents.
\<close>

definition clearDefault :: "image \<Rightarrow> image" where
  "clearDefault i = i\<lparr>isDefault := False\<rparr>"

definition reconcileImages :: "image_ref option \<Rightarrow> image list \<Rightarrow> image list" where
  "reconcileImages d imgs =
     (case d of
        None \<Rightarrow> imgs
      | Some c \<Rightarrow>
          if urlDiffers (topLevelDefaultImg imgs) c
          then map clearDefault imgs @ [\<lparr>url = url c, altText = altText c, isDefault = True\<rparr>]
          else imgs)"

text \<open>The number of entries of an image list whose \<^verbatim>\<open>isDefault\<close> flag is set.\<close>

definition flagged :: "image list \<Rightarrow> nat" where
  "flagged imgs = length (filter isDefault imgs)"

section \<open>Option selections from the query string\<close>

text \<open>
  \<^verbatim>\<open>searchParams\<close> is an object; it is modelled by the list of its properties in the order
  in which \<^verbatim>\<open>Object.keys\<close> enumerates them. \<^verbatim>\<open>const { slug, ...options } = searchParams\<close>
  copies every property but \<^verbatim>\<open>slug\<close>, and \<^verbatim>\<open>Object.keys(options)\<close> lists the keys of the copy.
\<close>

type_synonym searchParams = "(string \<times> param) list"

definition optionKeys :: "searchParams \<Rightarrow> string list" where
  "optionKeys sp = map fst (filter (\<lambda>kv. fst kv \<noteq> ''slug'') sp)"

text \<open>\<^verbatim>\<open>searchParams[option]\<close>: the value of the property, undefined when there is none.\<close>

definition lookupParam :: "searchParams \<Rightarrow> string \<Rightarrow> param" where
  "lookupParam sp k = (case map_of sp k of None \<Rightarrow> Undefined | Some v \<Rightarrow> v)"

text \<open>
  \<^verbatim>\<open>Object.keys(options).map(...).filter(...)\<close> of \<^verbatim>\<open>Product\<close>: each key and its value go
  through \<^verbatim>\<open>Number\<close>, and a pair stays when neither result is NaN.
\<close>

definition optionValueIds :: "searchParams \<Rightarrow> optionValueId list" where
  "optionValueIds sp =
     filter (\<lambda>option. \<not> isNaN (optionEntityId option) \<and> \<not> isNaN (valueEntityId option))
       (map (\<lambda>option. \<lparr>optionEntityId = Number_string option,
                        valueEntityId = Number_param (lookupParam sp option)\<rparr>)
            (optionKeys sp))"

section \<open>Price display\<close>

text \<open>
  What \<^verbatim>\<open>ProductDetails\<close> puts into the price block, in order. A number that goes through
  \<^verbatim>\<open>currencyFormatter.format\<close> is kept as the number; \<open>BareNumber\<close> is a number that the
  markup contains as it is, which the renderer prints as its plain decimal text (\<^verbatim>\<open>0\<close>
  for zero).
\<close>

datatype price_node =
    RangeLine number number
  | MsrpLine number
  | WasNow number number
  | FormattedPrice number
  | BareNumber number

text \<open>
  \<^verbatim>\<open>product.prices?.priceRange.min.value !== product.prices?.priceRange.max.value\<close>; without
  prices both sides are undefined, which are equal.
\<close>

definition showPriceRange :: "prices option \<Rightarrow> bool" where
  "showPriceRange p =
     (case p of None \<Rightarrow> False
      | Some ps \<Rightarrow> strictNotEqual (priceRange_min ps) (priceRange_max ps))"

text \<open>
  \<^verbatim>\<open>product.prices.price.value && (<>{format(price.value)}</>)\<close>: a truthy value gives the
  formatted price; a falsy one (zero or NaN) is itself the value of the expression.
\<close>

definition plainPrice :: "number \<Rightarrow> price_node list" where
  "plainPrice v = (if truthy v then [FormattedPrice v] else [BareNumber v])"

definition salePriceBlock :: "prices \<Rightarrow> price_node list" where
  "salePriceBlock ps =
     (case salePrice ps of
        None \<Rightarrow> plainPrice (price ps)
      | Some s \<Rightarrow>
          (case basePrice ps of
             None \<Rightarrow> plainPrice (price ps)
           | Some b \<Rightarrow> [WasNow b s]))"

definition msrpBlock :: "prices \<Rightarrow> price_node list" where
  "msrpBlock ps = (case retailPrice ps of None \<Rightarrow> [] | Some r \<Rightarrow> [MsrpLine r])"

definition priceDisplay :: "prices option \<Rightarrow> price_node list" where
  "priceDisplay p =
     (case p of
        None \<Rightarrow> []
      | Some ps \<Rightarrow>
          if showPriceRange p then [RangeLine (priceRange_min ps) (priceRange_max ps)]
          else msrpBlock ps @ salePriceBlock ps)"

section \<open>The product page: metadata and render steps\<close>

text \<open>\<^verbatim>\<open>metaKeywords.split(',')\<close>.\<close>

fun splitComma :: "string \<Rightarrow> string list" where
  "splitComma [] = [[]]"
| "splitComma (c # r) =
     (if c = CHR '',''
      then [] # splitComma r
      else (case splitComma r of [] \<Rightarrow> [[c]] | x # xs \<Rightarrow> (c # x) # xs))"

text \<open>
  The commerce API is outside the repository: \<^verbatim>\<open>getProduct\<close> is a parameter, a function
  from the product identifier and the option selections (absent when the caller passes
  one argument) to a product or null.
\<close>

type_synonym getProduct = "number \<Rightarrow> optionValueId list option \<Rightarrow> product option"

text \<open>
  \<^verbatim>\<open>generateMetadata\<close> of the product page. Without a product it returns \<^verbatim>\<open>{}\<close>; it has
  no call of \<^verbatim>\<open>notFound\<close>.
\<close>

definition product_generateMetadata :: "getProduct \<Rightarrow> string \<Rightarrow> signal + metadata" where
  "product_generateMetadata getProduct slug =
     (let productId = Number_string slug in
      case getProduct productId None of
        None \<Rightarrow> Inr emptyMetadata
      | Some product \<Rightarrow>
          Inr \<lparr>title = Some (if pageTitle (product_seo product) \<noteq> []
                             then pageTitle (product_seo product) else name product),
               description = Some (if metaDescription (product_seo product) \<noteq> []
                                   then metaDescription (product_seo product)
                                   else take 150 (plainTextDescription product) @ ''...''),
               meta_keywords = (if metaKeywords (product_seo product) \<noteq> []
                                then Some (KeywordList (splitComma (metaKeywords (product_seo product))))
                                else None),
               openGraph = (case defaultImage product of
                              None \<Rightarrow> None
                            | Some d \<Rightarrow>
                                if url d \<noteq> [] then Some [\<lparr>url = url d, altText = altText d\<rparr>]
                                else None)\<rparr>)"

text \<open>
  What \<^verbatim>\<open>Product\<close> hands to the components it renders: the identifier for the bread
  crumbs and the related products, the image list for the gallery, the product for the
  details (whose price block is \<open>priceDisplay\<close>) and the option selections.
\<close>

record product_page =
  breadCrumbs_productId :: number
  gallery_images :: "image list"
  details_product :: product
  details_prices :: "price_node list"
  related_optionValueIds :: "optionValueId list"
  related_productId :: number

text \<open>
  \<^verbatim>\<open>Product\<close>, the render step. The reconciliation writes into \<^verbatim>\<open>product.images\<close> itself, so
  the product that the details receive has the reconciled list too.
\<close>

definition Product :: "getProduct \<Rightarrow> string \<Rightarrow> searchParams \<Rightarrow> signal + product_page" where
  "Product getProduct slug sp =
     (let productId = Number_string slug;
          ids = optionValueIds sp
      in case getProduct productId (Some ids) of
           None \<Rightarrow> Inl NotFound
         | Some product \<Rightarrow>
             (let imgs = reconcileImages (defaultImage product) (images product);
                  product' = product\<lparr>images := imgs\<rparr>
              in Inr \<lparr>breadCrumbs_productId = productId,
                      gallery_images = imgs,
                      details_product = product',
                      details_prices = priceDisplay (product_prices product'),
                      related_optionValueIds = ids,
                      related_productId = productId\<rparr>))"

section \<open>The content page: metadata and render steps\<close>

datatype page_type = ContactPage | NormalPage | OtherPage

record webpage =
  webpage_name :: string
  htmlBody :: string
  typename :: page_type
  entityId :: int
  webpage_seo :: seo
  contactFields :: "string list"

text \<open>
  The page content alone, or the page content with the contact form, which also gets the
  reCAPTCHA settings (of a type \<open>'r\<close> that the page does not look into).
\<close>

datatype 'r webpage_view =
    ContentView string string
  | ContactView string string "string list" int 'r

type_synonym getWebPage = "string \<Rightarrow> webpage option"

definition webpage_generateMetadata :: "getWebPage \<Rightarrow> string \<Rightarrow> signal + metadata" where
  "webpage_generateMetadata getWebPage page =
     (let path = ''/'' @ page in
      case getWebPage path of
        None \<Rightarrow> Inl NotFound
      | Some w \<Rightarrow>
          Inr \<lparr>title = Some (pageTitle (webpage_seo w)),
               description = Some (metaDescription (webpage_seo w)),
               meta_keywords = Some (KeywordString (metaKeywords (webpage_seo w))),
               openGraph = None\<rparr>)"

definition WebPage :: "getWebPage \<Rightarrow> 'r \<Rightarrow> string \<Rightarrow> signal + 'r webpage_view" where
  "WebPage getWebPage getReCaptchaSettings page =
     (let path = ''/'' @ page in
      case getWebPage path of
        None \<Rightarrow> Inl NotFound
      | Some w \<Rightarrow>
          (case typename w of
             ContactPage \<Rightarrow>
               Inr (ContactView (htmlBody w) (webpage_name w) (contactFields w) (entityId w)
                      getReCaptchaSettings)
           | _ \<Rightarrow> Inr (ContentView (htmlBody w) (webpage_name w))))"

section \<open>Properties of image reconciliation\<close>

lemma filter_clearDefault: "filter isDefault (map clearDefault imgs) = []"
  by (induction imgs) (simp_all add: clearDefault_def)

lemma find_clearDefault: "find isDefault (map clearDefault imgs) = None"
  by (induction imgs) (simp_all add: clearDefault_def)

lemma find_append_none: "find P xs = None \<Longrightarrow> find P (xs @ ys) = find P ys"
  by (induction xs) (simp_all split: if_splits)

lemma topLevelDefaultImg_rewritten:
  "topLevelDefaultImg (map clearDefault imgs @ [\<lparr>url = u, altText = a, isDefault = True\<rparr>])
     = Some \<lparr>url = u, altText = a, isDefault = True\<rparr>"
  by (simp add: topLevelDefaultImg_def find_append_none [OF find_clearDefault])

lemma flagged_rewritten:
  "flagged (map clearDefault imgs @ [\<lparr>url = u, altText = a, isDefault = True\<rparr>]) = 1"
  by (simp add: flagged_def filter_clearDefault)

text \<open>
  C8. When the product's canonical default image is null, the image list is left exactly
  as fetched: no entry is appended and no flag changes, however many entries are flagged.
\<close>

theorem reconcile_null_default_unchanged:
  "reconcileImages None imgs = imgs"
  by (simp add: reconcileImages_def)

text \<open>
  C6. Reconciliation is idempotent: reconciling the reconciled list again, against the same
  canonical default image, changes nothing.
\<close>

theorem reconcile_idempotent:
  "reconcileImages d (reconcileImages d imgs) = reconcileImages d imgs"
proof (cases d)
  case None
  then show ?thesis by (simp add: reconcileImages_def)
next
  case (Some c)
  show ?thesis
  proof (cases "urlDiffers (topLevelDefaultImg imgs) c")
    case False
    with Some show ?thesis by (simp add: reconcileImages_def)
  next
    case True
    let ?r = "map clearDefault imgs @ [\<lparr>url = url c, altText = altText c, isDefault = True\<rparr>]"
    have r: "reconcileImages d imgs = ?r"
      using Some True by (simp add: reconcileImages_def)
    have "\<not> urlDiffers (topLevelDefaultImg ?r) c"
      by (simp add: topLevelDefaultImg_rewritten urlDiffers_def)
    then have "reconcileImages d ?r = ?r"
      using Some by (simp add: reconcileImages_def)
    with r show ?thesis by simp
  qed
qed

text \<open>
  C7. When the catalog's flagged default image (the first flagged entry, which is the one
  the page looks at) has the canonical default image's URL, reconciliation leaves the list
  unchanged: nothing is appended and no flag is touched.
\<close>

theorem reconcile_same_url_unchanged:
  assumes "topLevelDefaultImg imgs = Some i" and "url i = url d"
  shows "reconcileImages (Some d) imgs = imgs"
  using assms by (simp add: reconcileImages_def urlDiffers_def)

theorem reconcile_same_url_unchanged_witness:
  "topLevelDefaultImg
     [\<lparr>url = ''a.png'', altText = ''a'', isDefault = False\<rparr>,
      \<lparr>url = ''b.png'', altText = ''b'', isDefault = True\<rparr>]
     = Some \<lparr>url = ''b.png'', altText = ''b'', isDefault = True\<rparr>
   \<and> url \<lparr>url = ''b.png'', altText = ''b'', isDefault = True\<rparr>
     = url \<lparr>url = ''b.png'', altText = ''canonical''\<rparr>
   \<and> reconcileImages (Some \<lparr>url = ''b.png'', altText = ''canonical''\<rparr>)
       [\<lparr>url = ''a.png'', altText = ''a'', isDefault = False\<rparr>,
        \<lparr>url = ''b.png'', altText = ''b'', isDefault = True\<rparr>]
     = [\<lparr>url = ''a.png'', altText = ''a'', isDefault = False\<rparr>,
        \<lparr>url = ''b.png'', altText = ''b'', isDefault = True\<rparr>]"
proof -
  have h1: "topLevelDefaultImg
     [\<lparr>url = ''a.png'', altText = ''a'', isDefault = False\<rparr>,
      \<lparr>url = ''b.png'', altText = ''b'', isDefault = True\<rparr>]
     = Some \<lparr>url = ''b.png'', altText = ''b'', isDefault = True\<rparr>"
    by (simp add: topLevelDefaultImg_def)
  have h2: "url \<lparr>url = ''b.png'', altText = ''b'', isDefault = True\<rparr>
     = url \<lparr>url = ''b.png'', altText = ''canonical''\<rparr>"
    by simp
  from h1 h2 reconcile_same_url_unchanged [OF h1 h2] show ?thesis by simp
qed

text \<open>
  C2, as the specification states it, fails: with a canonical default image present, a
  catalog list with two flagged entries whose first one already has the canonical URL is
  left as it is, with two flagged entries.
\<close>

theorem reconcile_exactly_one_default_counterexample:
  "flagged (reconcileImages (Some \<lparr>url = ''a.png'', altText = ''a''\<rparr>)
     [\<lparr>url = ''a.png'', altText = ''a'', isDefault = True\<rparr>,
      \<lparr>url = ''b.png'', altText = ''b'', isDefault = True\<rparr>]) = 2"
  by (simp add: reconcileImages_def urlDiffers_def topLevelDefaultImg_def flagged_def)

text \<open>
  C2, amended. With a canonical default image present: when the first flagged catalog
  entry does not carry the canonical URL (or no entry is flagged), the reconciled list has
  exactly one flagged entry, however many were flagged beforehand; when it does, the list
  is unchanged and keeps the catalog's number of flagged entries, which is at least one.
\<close>

theorem reconcile_flagged_count:
  "(urlDiffers (topLevelDefaultImg imgs) d
      \<longrightarrow> flagged (reconcileImages (Some d) imgs) = 1)
   \<and> (\<not> urlDiffers (topLevelDefaultImg imgs) d
      \<longrightarrow> reconcileImages (Some d) imgs = imgs \<and> 1 \<le> flagged imgs)"
proof (intro conjI impI)
  assume "urlDiffers (topLevelDefaultImg imgs) d"
  then show "flagged (reconcileImages (Some d) imgs) = 1"
    by (simp add: reconcileImages_def flagged_rewritten)
next
  assume same: "\<not> urlDiffers (topLevelDefaultImg imgs) d"
  then show "reconcileImages (Some d) imgs = imgs"
    by (simp add: reconcileImages_def)
  from same obtain i where "find isDefault imgs = Some i"
    by (auto simp: urlDiffers_def topLevelDefaultImg_def split: option.splits)
  then have "i \<in> set (filter isDefault imgs)"
    by (auto simp: find_Some_iff)
  then have "filter isDefault imgs \<noteq> []"
    by (metis empty_iff empty_set)
  then show "1 \<le> flagged imgs"
    by (cases "filter isDefault imgs") (simp_all add: flagged_def)
qed

theorem reconcile_flagged_count_witness:
  "urlDiffers (topLevelDefaultImg
       [\<lparr>url = ''a.png'', altText = ''a'', isDefault = True\<rparr>,
        \<lparr>url = ''b.png'', altText = ''b'', isDefault = True\<rparr>])
     \<lparr>url = ''c.png'', altText = ''c''\<rparr>
   \<and> flagged (reconcileImages (Some \<lparr>url = ''c.png'', altText = ''c''\<rparr>)
       [\<lparr>url = ''a.png'', altText = ''a'', isDefault = True\<rparr>,
        \<lparr>url = ''b.png'', altText = ''b'', isDefault = True\<rparr>]) = 1
   \<and> \<not> urlDiffers (topLevelDefaultImg
       [\<lparr>url = ''a.png'', altText = ''a'', isDefault = True\<rparr>])
     \<lparr>url = ''a.png'', altText = ''a''\<rparr>
   \<and> reconcileImages (Some \<lparr>url = ''a.png'', altText = ''a''\<rparr>)
       [\<lparr>url = ''a.png'', altText = ''a'', isDefault = True\<rparr>]
     = [\<lparr>url = ''a.png'', altText = ''a'', isDefault = True\<rparr>]
   \<and> 1 \<le> flagged [\<lparr>url = ''a.png'', altText = ''a'', isDefault = True\<rparr>]"
proof -
  have h1: "urlDiffers (topLevelDefaultImg
       [\<lparr>url = ''a.png'', altText = ''a'', isDefault = True\<rparr>,
        \<lparr>url = ''b.png'', altText = ''b'', isDefault = True\<rparr>])
     \<lparr>url = ''c.png'', altText = ''c''\<rparr>"
    by (simp add: urlDiffers_def topLevelDefaultImg_def)
  have h2: "\<not> urlDiffers (topLevelDefaultImg
       [\<lparr>url = ''a.png'', altText = ''a'', isDefault = True\<rparr>])
     \<lparr>url = ''a.png'', altText = ''a''\<rparr>"
    by (simp add: urlDiffers_def topLevelDefaultImg_def)
  from h1 h2
    reconcile_flagged_count
      [of "[\<lparr>url = ''a.png'', altText = ''a'', isDefault = True\<rparr>,
            \<lparr>url = ''b.png'', altText = ''b'', isDefault = True\<rparr>]"
          "\<lparr>url = ''c.png'', altText = ''c''\<rparr>"]
    reconcile_flagged_count
      [of "[\<lparr>url = ''a.png'', altText = ''a'', isDefault = True\<rparr>]"
          "\<lparr>url = ''a.png'', altText = ''a''\<rparr>"]
  show ?thesis by blast
qed

text \<open>
  C10, as stated, fails when the first flagged entry carries the canonical URL as well:
  here the second flagged entry has the canonical URL and is not the first flagged one,
  yet the list is not rewritten.
\<close>

theorem reconcile_first_flagged_only_counterexample:
  "isDefault \<lparr>url = ''a.png'', altText = ''second'', isDefault = True\<rparr>
   \<and> url \<lparr>url = ''a.png'', altText = ''second'', isDefault = True\<rparr>
       = url \<lparr>url = ''a.png'', altText = ''canonical''\<rparr>
   \<and> topLevelDefaultImg
       [\<lparr>url = ''a.png'', altText = ''first'', isDefault = True\<rparr>,
        \<lparr>url = ''a.png'', altText = ''second'', isDefault = True\<rparr>]
       \<noteq> Some \<lparr>url = ''a.png'', altText = ''second'', isDefault = True\<rparr>
   \<and> reconcileImages (Some \<lparr>url = ''a.png'', altText = ''canonical''\<rparr>)
       [\<lparr>url = ''a.png'', altText = ''first'', isDefault = True\<rparr>,
        \<lparr>url = ''a.png'', altText = ''second'', isDefault = True\<rparr>]
     = [\<lparr>url = ''a.png'', altText = ''first'', isDefault = True\<rparr>,
        \<lparr>url = ''a.png'', altText = ''second'', isDefault = True\<rparr>]"
  by (simp add: reconcileImages_def urlDiffers_def topLevelDefaultImg_def)

text \<open>
  C10, amended. The no-change test looks at the first flagged entry only: whenever the
  first flagged entry's URL differs from the canonical URL, the list is rewritten (every
  flag cleared, the canonical image appended and flagged), also when some later flagged
  entry carries the canonical URL.
\<close>

theorem reconcile_first_flagged_only:
  assumes "topLevelDefaultImg imgs = Some i" and "url i \<noteq> url d"
    and "j \<in> set imgs" and "isDefault j" and "url j = url d"
  shows "reconcileImages (Some d) imgs
           = map clearDefault imgs @ [\<lparr>url = url d, altText = altText d, isDefault = True\<rparr>]"
  using assms(1,2) by (simp add: reconcileImages_def urlDiffers_def)

theorem reconcile_first_flagged_only_witness:
  "reconcileImages (Some \<lparr>url = ''b.png'', altText = ''canonical''\<rparr>)
       [\<lparr>url = ''a.png'', altText = ''a'', isDefault = True\<rparr>,
        \<lparr>url = ''b.png'', altText = ''b'', isDefault = True\<rparr>]
     = [\<lparr>url = ''a.png'', altText = ''a'', isDefault = False\<rparr>,
        \<lparr>url = ''b.png'', altText = ''b'', isDefault = False\<rparr>,
        \<lparr>url = ''b.png'', altText = ''canonical'', isDefault = True\<rparr>]"
proof -
  have h1: "topLevelDefaultImg
       [\<lparr>url = ''a.png'', altText = ''a'', isDefault = True\<rparr>,
        \<lparr>url = ''b.png'', altText = ''b'', isDefault = True\<rparr>]
     = Some \<lparr>url = ''a.png'', altText = ''a'', isDefault = True\<rparr>"
    by (simp add: topLevelDefaultImg_def)
  have h2: "url \<lparr>url = ''a.png'', altText = ''a'', isDefault = True\<rparr>
      \<noteq> url \<lparr>url = ''b.png'', altText = ''canonical''\<rparr>"
    by simp
  have h3: "\<lparr>url = ''b.png'', altText = ''b'', isDefault = True\<rparr>
      \<in> set [\<lparr>url = ''a.png'', altText = ''a'', isDefault = True\<rparr>,
              \<lparr>url = ''b.png'', altText = ''b'', isDefault = True\<rparr>]"
    by simp
  have h4: "isDefault \<lparr>url = ''b.png'', altText = ''b'', isDefault = True\<rparr>"
    by simp
  have h5: "url \<lparr>url = ''b.png'', altText = ''b'', isDefault = True\<rparr>
      = url \<lparr>url = ''b.png'', altText = ''canonical''\<rparr>"
    by simp
  from reconcile_first_flagged_only [OF h1 h2 h3 h4 h5]
  show ?thesis by (simp add: clearDefault_def)
qed

section \<open>Properties of the option selections\<close>

lemmas Number_simps =
  Number_string_def trimString_def isStrWhiteSpaceChar_def nonDecimalIntegerLiteral_def
  strDecimalLiteral_def strUnsignedDecimalLiteral_def splitFirst_def mantissa_def
  signedInteger_def isDigits_def isDigitOf_def digitValue_def digitsValue_def scale10_def
  negate_def Number_param_def

lemma Number_string_slug: "Number_string ''slug'' = NaN"
  by (simp add: Number_simps)

lemma Number_string_empty: "Number_string [] = Finite 0"
  by (simp add: Number_string_def trimString_def)

lemma lookupParam_distinct:
  "distinct (map fst sp) \<Longrightarrow> (k, v) \<in> set sp \<Longrightarrow> lookupParam sp k = v"
  by (simp add: lookupParam_def)

lemma optionKeys_member:
  "k \<in> set (optionKeys sp) \<longleftrightarrow> k \<in> fst ` set sp \<and> k \<noteq> ''slug''"
  by (auto simp: optionKeys_def)

lemma optionValueIds_member:
  "e \<in> set (optionValueIds sp) \<longleftrightarrow>
     (\<exists>k. k \<in> set (optionKeys sp)
        \<and> e = \<lparr>optionEntityId = Number_string k,
                valueEntityId = Number_param (lookupParam sp k)\<rparr>
        \<and> Number_string k \<noteq> NaN \<and> Number_param (lookupParam sp k) \<noteq> NaN)"
  by (auto simp: optionValueIds_def isNaN_def)

text \<open>
  C5, as the specification states it, fails: inclusion is decided by \<^verbatim>\<open>Number\<close> and
  \<^verbatim>\<open>Number.isNaN\<close>, not by an integer parse. The key \<^verbatim>\<open>1.5\<close> and the value \<^verbatim>\<open>Infinity\<close> are
  not integers, yet both pairs below reach the product fetch, with the entity identifiers
  1.5 and Infinity.
\<close>

theorem optionValueIds_counterexample:
  "optionValueIds [(''1.5'', Str ''2''), (''7'', Str ''Infinity'')]
     = [\<lparr>optionEntityId = Finite (3 / 2), valueEntityId = Finite 2\<rparr>,
        \<lparr>optionEntityId = Finite 7, valueEntityId = PosInfinity\<rparr>]"
  by (simp add: optionValueIds_def optionKeys_def lookupParam_def isNaN_def Number_simps)

text \<open>
  C5, amended. For every query object and each of its properties, the pair of the
  converted key and the converted value is in the selection set passed to the product fetch
  if and only if neither \<^verbatim>\<open>Number(key)\<close> nor \<^verbatim>\<open>Number(value)\<close> is NaN. The function is total:
  a pair that fails the test is left out and nothing is raised. (The keys of an object are
  distinct, which is the first hypothesis.)
\<close>

theorem optionValueIds_included_iff:
  assumes "distinct (map fst sp)" and "(k, v) \<in> set sp"
  shows "\<lparr>optionEntityId = Number_string k, valueEntityId = Number_param v\<rparr>
           \<in> set (optionValueIds sp)
         \<longleftrightarrow> Number_string k \<noteq> NaN \<and> Number_param v \<noteq> NaN"
proof
  assume "\<lparr>optionEntityId = Number_string k, valueEntityId = Number_param v\<rparr>
           \<in> set (optionValueIds sp)"
  then show "Number_string k \<noteq> NaN \<and> Number_param v \<noteq> NaN"
    by (auto simp: optionValueIds_member)
next
  assume ok: "Number_string k \<noteq> NaN \<and> Number_param v \<noteq> NaN"
  then have "k \<noteq> ''slug''"
    using Number_string_slug by auto
  with assms(2) have "k \<in> set (optionKeys sp)"
    by (force simp: optionKeys_member)
  moreover have "lookupParam sp k = v"
    using assms by (rule lookupParam_distinct)
  ultimately show "\<lparr>optionEntityId = Number_string k, valueEntityId = Number_param v\<rparr>
           \<in> set (optionValueIds sp)"
    using ok unfolding optionValueIds_member by blast
qed

theorem optionValueIds_included_iff_witness:
  "distinct (map fst [(''134'', Str ''139''), (''color'', Str ''red'')])
   \<and> (''134'', Str ''139'') \<in> set [(''134'', Str ''139''), (''color'', Str ''red'')]
   \<and> (''color'', Str ''red'') \<in> set [(''134'', Str ''139''), (''color'', Str ''red'')]
   \<and> \<lparr>optionEntityId = Finite 134, valueEntityId = Finite 139\<rparr>
        \<in> set (optionValueIds [(''134'', Str ''139''), (''color'', Str ''red'')])
   \<and> \<lparr>optionEntityId = NaN, valueEntityId = NaN\<rparr>
        \<notin> set (optionValueIds [(''134'', Str ''139''), (''color'', Str ''red'')])"
proof -
  let ?sp = "[(''134'', Str ''139''), (''color'', Str ''red'')]"
  have h1: "distinct (map fst ?sp)" by simp
  have h2: "(''134'', Str ''139'') \<in> set ?sp" by simp
  have h3: "(''color'', Str ''red'') \<in> set ?sp" by simp
  have n1: "Number_string ''134'' = Finite 134" by (simp add: Number_simps)
  have n2: "Number_param (Str ''139'') = Finite 139" by (simp add: Number_simps)
  have n3: "Number_string ''color'' = NaN" by (simp add: Number_simps)
  have n4: "Number_param (Str ''red'') = NaN" by (simp add: Number_simps)
  from optionValueIds_included_iff [OF h1 h2] optionValueIds_included_iff [OF h1 h3]
  show ?thesis using h1 h2 h3 unfolding n1 n2 n3 n4 by simp
qed

text \<open>
  C9. A query parameter whose key parses as an integer \<open>n\<close> and whose value is the
  empty string is not dropped: the selection set contains the pair of \<open>n\<close> and 0, since
  \<^verbatim>\<open>Number('')\<close> is 0 and not NaN.
\<close>

theorem optionValueIds_empty_value:
  assumes "distinct (map fst sp)" and "(k, Str []) \<in> set sp"
    and "Number_string k = Finite (of_int n)"
  shows "\<lparr>optionEntityId = Finite (of_int n), valueEntityId = Finite 0\<rparr>
           \<in> set (optionValueIds sp)"
proof -
  have "k \<noteq> ''slug''"
    using assms(3) Number_string_slug by auto
  with assms(2) have "k \<in> set (optionKeys sp)"
    by (force simp: optionKeys_member)
  moreover have "lookupParam sp k = Str []"
    using assms(1,2) by (rule lookupParam_distinct)
  ultimately show ?thesis
    using assms(3) unfolding optionValueIds_member
    by (auto simp: Number_param_def Number_string_empty intro!: exI [of _ k])
qed

theorem optionValueIds_empty_value_witness:
  "distinct (map fst [(''134'', Str [])])
   \<and> (''134'', Str []) \<in> set [(''134'', Str [])]
   \<and> Number_string ''134'' = Finite (of_int 134)
   \<and> \<lparr>optionEntityId = Finite (of_int 134), valueEntityId = Finite 0\<rparr>
        \<in> set (optionValueIds [(''134'', Str [])])"
proof -
  have h1: "distinct (map fst [(''134'', Str [])])" by simp
  have h2: "(''134'', Str []) \<in> set [(''134'', Str [])]" by simp
  have h3: "Number_string ''134'' = Finite (of_int 134)" by (simp add: Number_simps)
  from h1 h2 h3 optionValueIds_empty_value [OF h1 h2 h3] show ?thesis by blast
qed

section \<open>Properties of the price display\<close>

lemma price_plain_formatted:
  assumes "\<not> showPriceRange (Some ps)" and "salePrice ps = None \<or> basePrice ps = None"
    and "truthy (price ps)"
  shows "priceDisplay (Some ps) = msrpBlock ps @ [FormattedPrice (price ps)]"
  using assms
  by (auto simp: priceDisplay_def salePriceBlock_def plainPrice_def split: option.splits)

text \<open>
  C3, as the specification states it, fails: the Was/Now block does not depend on the
  retail price. A price set without a retail price, with a sale price and a base price,
  shows the Was/Now block.
\<close>

theorem price_no_retail_counterexample:
  "priceDisplay (Some \<lparr>priceRange_min = Finite 30, priceRange_max = Finite 30,
       retailPrice = None, salePrice = Some (Finite 30), basePrice = Some (Finite 40),
       price = Finite 30\<rparr>)
     = [WasNow (Finite 40) (Finite 30)]"
  by (simp add: priceDisplay_def showPriceRange_def strictNotEqual_def msrpBlock_def
      salePriceBlock_def)

text \<open>
  C3, amended. When the range branch is not taken and the price set has no retail
  price, only the MSRP line is missing: with a sale price and a base price the block is the
  Was/Now display, and otherwise, for a price that is neither zero nor NaN, it is the
  formatted plain price.
\<close>

theorem price_without_retail:
  assumes "\<not> showPriceRange (Some ps)" and "retailPrice ps = None"
  shows "(salePrice ps = Some s \<and> basePrice ps = Some b
            \<longrightarrow> priceDisplay (Some ps) = [WasNow b s])
       \<and> ((salePrice ps = None \<or> basePrice ps = None) \<and> truthy (price ps)
            \<longrightarrow> priceDisplay (Some ps) = [FormattedPrice (price ps)])"
  using assms
  by (auto simp: priceDisplay_def msrpBlock_def salePriceBlock_def plainPrice_def
      split: option.splits)

theorem price_without_retail_witness:
  "\<not> showPriceRange (Some \<lparr>priceRange_min = Finite 30, priceRange_max = Finite 30,
       retailPrice = None, salePrice = Some (Finite 30), basePrice = Some (Finite 40),
       price = Finite 30\<rparr>)
   \<and> priceDisplay (Some \<lparr>priceRange_min = Finite 30, priceRange_max = Finite 30,
       retailPrice = None, salePrice = Some (Finite 30), basePrice = Some (Finite 40),
       price = Finite 30\<rparr>) = [WasNow (Finite 40) (Finite 30)]
   \<and> \<not> showPriceRange (Some \<lparr>priceRange_min = Finite 25, priceRange_max = Finite 25,
       retailPrice = None, salePrice = None, basePrice = Some (Finite 25),
       price = Finite 25\<rparr>)
   \<and> truthy (Finite 25)
   \<and> priceDisplay (Some \<lparr>priceRange_min = Finite 25, priceRange_max = Finite 25,
       retailPrice = None, salePrice = None, basePrice = Some (Finite 25),
       price = Finite 25\<rparr>) = [FormattedPrice (Finite 25)]"
proof -
  let ?a = "\<lparr>priceRange_min = Finite 30, priceRange_max = Finite 30,
       retailPrice = None, salePrice = Some (Finite 30), basePrice = Some (Finite 40),
       price = Finite 30\<rparr>"
  let ?b = "\<lparr>priceRange_min = Finite 25, priceRange_max = Finite 25,
       retailPrice = None, salePrice = None, basePrice = Some (Finite 25),
       price = Finite 25\<rparr>"
  have a1: "\<not> showPriceRange (Some ?a)" by (simp add: showPriceRange_def strictNotEqual_def)
  have a2: "retailPrice ?a = None" by simp
  have b1: "\<not> showPriceRange (Some ?b)" by (simp add: showPriceRange_def strictNotEqual_def)
  have b2: "retailPrice ?b = None" by simp
  have t: "truthy (Finite 25)" by (simp add: truthy_def)
  from price_without_retail [OF a1 a2, of "Finite 30" "Finite 40"]
    price_without_retail [OF b1 b2]
  show ?thesis using a1 b1 t by simp
qed

text \<open>
  C4 at a plain price of zero: the range branch is not taken, there is no sale price and
  no base price, the plain price field is present with the value 0, and the block holds the
  bare number 0 in place of the formatted price. (For a price that is neither zero nor NaN
  the formatted price is shown, by \<open>price_plain_formatted\<close>.)
\<close>

theorem price_zero_rendered_bare:
  "priceDisplay (Some \<lparr>priceRange_min = Finite 0, priceRange_max = Finite 0,
       retailPrice = None, salePrice = None, basePrice = None, price = Finite 0\<rparr>)
     = [BareNumber (Finite 0)]"
  by (simp add: priceDisplay_def showPriceRange_def strictNotEqual_def msrpBlock_def
      salePriceBlock_def plainPrice_def truthy_def)

section \<open>Properties of the not-found handling\<close>

text \<open>
  C1, as the specification states it, fails for the metadata step of the product page:
  for a product identifier that the API does not know, it returns the empty metadata and
  not the not-found signal.
\<close>

theorem product_metadata_not_found_counterexample:
  "product_generateMetadata (\<lambda>productId ids. None) ''999'' = Inr emptyMetadata
   \<and> product_generateMetadata (\<lambda>productId ids. None) ''999'' \<noteq> Inl NotFound"
  by (simp add: product_generateMetadata_def)

text \<open>
  C1, amended. For a path that the API does not know, the metadata step and the render
  step of the content page both end with the not-found signal. For a product identifier
  that the API does not know, the render step of the product page ends with the not-found
  signal, and the metadata step of the product page returns the empty metadata.
\<close>

theorem not_found_steps:
  "(getWebPage (''/'' @ page) = None
      \<longrightarrow> webpage_generateMetadata getWebPage page = Inl NotFound
        \<and> WebPage getWebPage getReCaptchaSettings page = Inl NotFound)
   \<and> (getProduct (Number_string slug) (Some (optionValueIds sp)) = None
      \<longrightarrow> Product getProduct slug sp = Inl NotFound)
   \<and> (getProduct (Number_string slug) None = None
      \<longrightarrow> product_generateMetadata getProduct slug = Inr emptyMetadata)"
  by (simp add: webpage_generateMetadata_def WebPage_def Product_def
      product_generateMetadata_def)

theorem not_found_steps_witness:
  "webpage_generateMetadata (\<lambda>path. None) ''about'' = Inl NotFound
   \<and> WebPage (\<lambda>path. None) () ''about'' = Inl NotFound
   \<and> Product (\<lambda>productId ids. None) ''999'' [(''134'', Str ''139'')] = Inl NotFound
   \<and> product_generateMetadata (\<lambda>productId ids. None) ''999'' = Inr emptyMetadata"
  using not_found_steps [of "\<lambda>path. None" "''about''" "()" "\<lambda>productId ids. None" "''999''"
      "[(''134'', Str ''139'')]"]
  by simp

end
